theory Spec2Isabelle
  imports Complex_Main "HOL-Library.Sublist" "HOL-Library.Multiset" "HOL-Library.AList"
    "HOL-Library.List_Lexorder" "HOL-Library.Char_ord"
begin

section \<open>Data model of \<^verbatim>\<open>app/page.tsx\<close>\<close>

text \<open>
  The TypeScript type \<^verbatim>\<open>Entry\<close> has the fields \<^verbatim>\<open>id\<close>, \<^verbatim>\<open>value\<close>, \<^verbatim>\<open>date\<close>,
  \<^verbatim>\<open>period\<close> and the optional \<^verbatim>\<open>note\<close>. Three of these names are taken in Isabelle
  (\<open>id\<close> is the identity function, \<open>value\<close> and \<open>note\<close> are commands), so those fields
  carry the prefix \<open>entry_\<close>.

  A JavaScript number is modelled as an exact real number: sums, quotients, comparisons and
  \<^verbatim>\<open>Math.round\<close> are the exact ones, so binary rounding of IEEE doubles is outside
  the model. A string is a list of characters; comparison of strings is the
  lexicographic order on character codes, as JavaScript's \<^verbatim>\<open><\<close> on strings is.
\<close>

datatype period = Fasting | PreMeal | PostMeal

record Entry =
  entry_id :: string
  entry_value :: real
  date :: string
  period :: period
  entry_note :: "string option"

text \<open>The sample readings the page starts with.\<close>

definition initialEntries :: "Entry list" where
  "initialEntries =
     [\<lparr>entry_id = ''1'', entry_value = 57 / 10, date = ''2024-05-17T07:45'',
        period = Fasting, entry_note = None\<rparr>,
      \<lparr>entry_id = ''2'', entry_value = 77 / 10, date = ''2024-05-16T12:15'',
        period = PostMeal, entry_note = None\<rparr>,
      \<lparr>entry_id = ''3'', entry_value = 66 / 10, date = ''2024-05-15T18:05'',
        period = PreMeal, entry_note = None\<rparr>,
      \<lparr>entry_id = ''4'', entry_value = 53 / 10, date = ''2024-05-15T07:20'',
        period = Fasting, entry_note = Some ''Light walk + half portion breakfast''\<rparr>]"

text \<open>The string a \<^verbatim>\<open>period\<close> value is in the source.\<close>

fun periodName :: "period \<Rightarrow> string" where
  "periodName Fasting = ''Fasting''"
| "periodName PreMeal = ''Pre-Meal''"
| "periodName PostMeal = ''Post-Meal''"

datatype ReadingCategory = low | good | high

subsection \<open>Number and array primitives of the language\<close>

text \<open>\<^verbatim>\<open>Math.round(x)\<close>: the nearest integer, a tie going towards plus infinity.\<close>

definition Math_round :: "real \<Rightarrow> int" where
  "Math_round x = \<lfloor>x + 1 / 2\<rfloor>"

text \<open>\<^verbatim>\<open>Math.round(x * 10) / 10\<close>, the rounding to one decimal used throughout.\<close>

definition round1 :: "real \<Rightarrow> real" where
  "round1 x = of_int (Math_round (x * 10)) / 10"

text \<open>
  \<^verbatim>\<open>xs.slice(start, end)\<close>: a negative index counts from the end of the array and both
  indices are clamped into the array; \<^verbatim>\<open>xs.slice(start)\<close> runs to the end.
\<close>

definition slice :: "int \<Rightarrow> int \<Rightarrow> 'a list \<Rightarrow> 'a list" where
  "slice start end xs =
     (let len = int (length xs);
          k = (if start < 0 then max (len + start) 0 else min start len);
          final = (if end < 0 then max (len + end) 0 else min end len)
      in take (nat (final - k)) (drop (nat k) xs))"


text \<open>\<^verbatim>\<open>String(n)\<close> for a non-negative and for any integer: the decimal digits.\<close>

definition digitChar :: "nat \<Rightarrow> char" where
  "digitChar d = ''0123456789'' ! d"

fun natToString :: "nat \<Rightarrow> string" where
  "natToString n =
     (if n < 10 then [digitChar n] else natToString (n div 10) @ [digitChar (n mod 10)])"

declare natToString.simps [simp del]

definition intToString :: "int \<Rightarrow> string" where
  "intToString i = (if i < 0 then CHR ''-'' # natToString (nat (- i)) else natToString (nat i))"

text \<open>\<^verbatim>\<open>s.padStart(n, c)\<close> with a one-character filler.\<close>

definition padStart :: "nat \<Rightarrow> char \<Rightarrow> string \<Rightarrow> string" where
  "padStart n c s = (if length s < n then replicate (n - length s) c @ s else s)"

text \<open>
  \<^verbatim>\<open>s.toLowerCase()\<close> and \<^verbatim>\<open>s.trim()\<close> on ASCII text: the letters A to Z are mapped
  to a to z, and the white space removed at both ends is space, tab, line feed, vertical
  tab, form feed and carriage return. Characters beyond ASCII are left as they are.
\<close>

definition lowerChar :: "char \<Rightarrow> char" where
  "lowerChar c =
     (let n = (of_char c :: nat) in if 65 \<le> n \<and> n \<le> 90 then char_of (n + 32) else c)"

definition toLowerCase :: "string \<Rightarrow> string" where
  "toLowerCase s = map lowerChar s"

definition isWhiteSpace :: "char \<Rightarrow> bool" where
  "isWhiteSpace c = (c \<in> set [CHR 0x20, CHR 0x09, CHR 0x0A, CHR 0x0B, CHR 0x0C, CHR 0x0D])"

definition trim :: "string \<Rightarrow> string" where
  "trim s = rev (dropWhile isWhiteSpace (rev (dropWhile isWhiteSpace s)))"

text \<open>\<^verbatim>\<open>field.includes(term)\<close>: \<open>term\<close> occurs in \<open>field\<close> as a contiguous run.\<close>

fun str_includes :: "string \<Rightarrow> string \<Rightarrow> bool" where
  "str_includes [] t = (t = [])"
| "str_includes (c # cs) t = (prefix t (c # cs) \<or> str_includes cs t)"


subsection \<open>The platform: dates and number formatting\<close>

text \<open>
  A \<^verbatim>\<open>Date\<close> object is modelled by what its methods return in the environment's time
  zone and locale: the local calendar fields, the epoch time, the UTC string of
  \<^verbatim>\<open>toISOString\<close>, and the three locale renderings the page asks for
  (\<^verbatim>\<open>toLocaleDateString("en-US", {month: "short", day: "numeric", year: "numeric"})\<close>,
  \<^verbatim>\<open>toLocaleTimeString("en-US", {hour: "numeric", minute: "2-digit"})\<close> and
  \<^verbatim>\<open>Intl.DateTimeFormat("en", {month: "short", day: "numeric"}).format\<close>).
  The constructor \<^verbatim>\<open>new Date(s)\<close> and \<^verbatim>\<open>Number.prototype.toString\<close> belong to the
  platform and not to the repository, so the functions below take them as the parameters
  \<open>newDate\<close> and \<open>numberToString\<close>. Timestamps are instants (section 3 of the
  specification), so only valid \<^verbatim>\<open>Date\<close> objects are modelled: \<open>newDate\<close> is
  applied to the timestamp of a reading and to the day of a reading followed by
  \<^verbatim>\<open>T00:00:00\<close>, and both are taken to parse (as they do for the years 0 to 9999).
\<close>

record jsDate =
  getFullYear :: int
  getMonth :: nat
  getDate :: nat
  getHours :: nat
  getMinutes :: nat
  getTime :: int
  toISOString :: string
  toLocaleDateString :: string
  toLocaleTimeString :: string
  formatMonthDay :: string

definition toInputDate :: "(string \<Rightarrow> jsDate) \<Rightarrow> string \<Rightarrow> string" where
  "toInputDate newDate isoString =
     (let d = newDate isoString;
          year = getFullYear d;
          month = padStart 2 (CHR ''0'') (natToString (getMonth d + 1));
          day = padStart 2 (CHR ''0'') (natToString (getDate d))
      in intToString year @ ''-'' @ month @ ''-'' @ day)"

subsection \<open>Reading category\<close>

definition lowUpper :: real where
  "lowUpper = 44 / 10"

definition highLower :: real where
  "highLower = 78 / 10"

definition getReadingCategory :: "real \<Rightarrow> ReadingCategory" where
  "getReadingCategory v =
     (if v < lowUpper then low
      else if v > highLower then high
      else good)"

subsection \<open>Summary statistics: the \<^verbatim>\<open>averages\<close> memo\<close>

record summary =
  average :: real
  recent :: real
  trend :: real

definition averages :: "Entry list \<Rightarrow> summary" where
  "averages entries =
     (if length entries = 0 then \<lparr>average = 0, recent = 0, trend = 0\<rparr>
      else
        let vals = map entry_value entries;
            avg = foldl (\<lambda>acc v. acc + v) 0 vals / of_nat (length vals);
            recentEntries = slice 0 (min 3 (int (length entries))) entries;
            recentAvg = foldl (\<lambda>acc e. acc + entry_value e) 0 recentEntries
                        / of_nat (if length recentEntries = 0 then 1 else length recentEntries)
        in \<lparr>average = round1 avg,
            recent = round1 recentAvg,
            trend = round1 (recentAvg - avg)\<rparr>)"







subsection \<open>History filters: the \<^verbatim>\<open>filteredEntries\<close> memo\<close>

text \<open>
  The filter state of the component. A date bound is a string, empty when the bound is not
  set; the period and the category filter are \<open>None\<close> for the choice \<^verbatim>\<open>"All"\<close>.
\<close>

record filters =
  searchTerm :: string
  filterStartDate :: string
  filterEndDate :: string
  filterPeriod :: "period option"
  filterCategory :: "ReadingCategory option"

text \<open>The five strings the search term is looked for in, in the source's order.\<close>

definition searchFields :: "(string \<Rightarrow> jsDate) \<Rightarrow> (real \<Rightarrow> string) \<Rightarrow> Entry \<Rightarrow> string list" where
  "searchFields newDate numberToString entry =
     (let d = newDate (date entry);
          dateString = toLocaleDateString d;
          timeString = toLocaleTimeString d
      in [periodName (period entry),
          (case entry_note entry of None \<Rightarrow> [] | Some n \<Rightarrow> n),
          numberToString (entry_value entry),
          dateString,
          timeString])"

text \<open>The callback of \<^verbatim>\<open>entries.filter\<close>, with its early returns in the source's order.\<close>

definition entryMatches ::
  "(string \<Rightarrow> jsDate) \<Rightarrow> (real \<Rightarrow> string) \<Rightarrow> filters \<Rightarrow> Entry \<Rightarrow> bool" where
  "entryMatches newDate numberToString f entry =
     (let term = toLowerCase (trim (searchTerm f));
          entryDate = toInputDate newDate (date entry)
      in if filterStartDate f \<noteq> [] \<and> entryDate < filterStartDate f then False
         else if filterEndDate f \<noteq> [] \<and> entryDate > filterEndDate f then False
         else if filterPeriod f \<noteq> None \<and> Some (period entry) \<noteq> filterPeriod f then False
         else if filterCategory f \<noteq> None
                 \<and> Some (getReadingCategory (entry_value entry)) \<noteq> filterCategory f then False
         else if term = [] then True
         else list_ex (\<lambda>field. str_includes (toLowerCase field) term)
                (searchFields newDate numberToString entry))"

definition filteredEntries ::
  "(string \<Rightarrow> jsDate) \<Rightarrow> (real \<Rightarrow> string) \<Rightarrow> filters \<Rightarrow> Entry list \<Rightarrow> Entry list" where
  "filteredEntries newDate numberToString f entries =
     filter (entryMatches newDate numberToString f) entries"


subsection \<open>Pagination\<close>







subsection \<open>Chart series: the \<^verbatim>\<open>chartData\<close> memo\<close>









text \<open>
  The chart in the specification's words. The days are the distinct local calendar dates
  in order of first appearance, sorted by date, of which the last 8 are kept; the point of
  a day holds, for each period, the rounded mean of the values of that day and period, or
  no value.
\<close>

definition localDay :: "(string \<Rightarrow> jsDate) \<Rightarrow> Entry \<Rightarrow> string" where
  "localDay newDate entry = toInputDate newDate (date entry)"








subsection \<open>CSV export: \<^verbatim>\<open>handleExportCsv\<close>\<close>





















section \<open>The offline cache controller (service worker)\<close>

datatype responseType = basic | cors | opaque

record Response =
  status :: nat
  response_type :: responseType
  body :: string

record Request =
  request_method :: string
  url :: string

text \<open>
  The cache storage: named caches in creation order, each a list of the responses stored
  under a request URL. \<^verbatim>\<open>caches.match\<close> answers from the first cache that has the
  request; \<^verbatim>\<open>cache.put\<close> on \<^verbatim>\<open>caches.open(name)\<close> creates the cache when it is
  missing and overwrites the entry of the request.
\<close>

type_synonym cacheStorage = "(string \<times> (string \<times> Response) list) list"

definition CACHE_NAME :: string where
  "CACHE_NAME = ''sgt-cache-v1''"

fun caches_match :: "cacheStorage \<Rightarrow> Request \<Rightarrow> Response option" where
  "caches_match [] request = None"
| "caches_match ((name, cache) # rest) request =
     (case map_of cache (url request) of
        Some r \<Rightarrow> Some r
      | None \<Rightarrow> caches_match rest request)"

definition cache_put :: "cacheStorage \<Rightarrow> string \<Rightarrow> Request \<Rightarrow> Response \<Rightarrow> cacheStorage" where
  "cache_put caches name request response =
     (case map_of caches name of
        None \<Rightarrow> caches @ [(name, [(url request, response)])]
      | Some cache \<Rightarrow> AList.update name (AList.update (url request) response cache) caches)"

text \<open>The network: \<^verbatim>\<open>fetch(request)\<close> resolves with a response or rejects.\<close>

datatype fetchResult = Resolved Response | Rejected

text \<open>
  What the page gets for a request: the request is left to the browser, or it is answered
  with a response, or it fails with a network error. \<^verbatim>\<open>respondWith\<close> of a promise that
  resolves with \<^verbatim>\<open>undefined\<close> (here \<open>None\<close>) is a network error.
\<close>

datatype outcome = NotIntercepted | Responded Response | NetworkError

definition startsWith :: "string \<Rightarrow> string \<Rightarrow> bool" where
  "startsWith s p = prefix p s"

text \<open>
  The \<^verbatim>\<open>fetch\<close> listener. The result is the outcome for the page and the cache storage
  after the listener's promises have settled. The test \<^verbatim>\<open>!networkResponse\<close> of the
  source is never true of a response.
\<close>

definition fetchListener ::
  "cacheStorage \<Rightarrow> (Request \<Rightarrow> fetchResult) \<Rightarrow> Request \<Rightarrow> outcome \<times> cacheStorage" where
  "fetchListener caches fetch request =
     (if request_method request \<noteq> ''GET'' then (NotIntercepted, caches)
      else
        let cachedResponse = caches_match caches request;
            (fetchPromise, caches') =
              (case fetch request of
                 Resolved networkResponse \<Rightarrow>
                   (if status networkResponse \<noteq> 200
                       \<or> response_type networkResponse = opaque
                       \<or> startsWith (url request) ''chrome-extension://''
                    then (Some networkResponse, caches)
                    else (Some networkResponse,
                          cache_put caches CACHE_NAME request networkResponse))
               | Rejected \<Rightarrow> (cachedResponse, caches));
            answer = (if cachedResponse \<noteq> None then cachedResponse else fetchPromise)
        in (case answer of Some r \<Rightarrow> Responded r | None \<Rightarrow> NetworkError, caches'))"

subsection \<open>A sample platform\<close>

text \<open>
  What a browser in the time zone UTC with the locale \<^verbatim>\<open>en-US\<close> returns for the
  timestamps of the sample readings and for the midnights of their days (any other string
  is given the first of them: the table serves the examples only), and
  \<^verbatim>\<open>Number.prototype.toString\<close> on non-negative numbers with at most one decimal
  and on \<open>10\<^sup>2\<^sup>1\<close>, the least number it writes with an exponent.
\<close>

definition sampleDate :: "string \<Rightarrow> jsDate" where
  "sampleDate s =
     (if s = ''2024-05-16T12:15''
      then \<lparr>getFullYear = 2024, getMonth = 4, getDate = 16, getHours = 12, getMinutes = 15,
          getTime = 1715861700000, toISOString = ''2024-05-16T12:15:00.000Z'',
          toLocaleDateString = ''May 16, 2024'', toLocaleTimeString = ''12:15 PM'',
          formatMonthDay = ''May 16''\<rparr>
      else if s = ''2024-05-15T18:05''
      then \<lparr>getFullYear = 2024, getMonth = 4, getDate = 15, getHours = 18, getMinutes = 5,
          getTime = 1715796300000, toISOString = ''2024-05-15T18:05:00.000Z'',
          toLocaleDateString = ''May 15, 2024'', toLocaleTimeString = ''6:05 PM'',
          formatMonthDay = ''May 15''\<rparr>
      else if s = ''2024-05-15T07:20''
      then \<lparr>getFullYear = 2024, getMonth = 4, getDate = 15, getHours = 7, getMinutes = 20,
          getTime = 1715757600000, toISOString = ''2024-05-15T07:20:00.000Z'',
          toLocaleDateString = ''May 15, 2024'', toLocaleTimeString = ''7:20 AM'',
          formatMonthDay = ''May 15''\<rparr>
      else if s = ''2024-05-15T00:00:00''
      then \<lparr>getFullYear = 2024, getMonth = 4, getDate = 15, getHours = 0, getMinutes = 0,
          getTime = 1715731200000, toISOString = ''2024-05-15T00:00:00.000Z'',
          toLocaleDateString = ''May 15, 2024'', toLocaleTimeString = ''12:00 AM'',
          formatMonthDay = ''May 15''\<rparr>
      else if s = ''2024-05-16T00:00:00''
      then \<lparr>getFullYear = 2024, getMonth = 4, getDate = 16, getHours = 0, getMinutes = 0,
          getTime = 1715817600000, toISOString = ''2024-05-16T00:00:00.000Z'',
          toLocaleDateString = ''May 16, 2024'', toLocaleTimeString = ''12:00 AM'',
          formatMonthDay = ''May 16''\<rparr>
      else if s = ''2024-05-17T00:00:00''
      then \<lparr>getFullYear = 2024, getMonth = 4, getDate = 17, getHours = 0, getMinutes = 0,
          getTime = 1715904000000, toISOString = ''2024-05-17T00:00:00.000Z'',
          toLocaleDateString = ''May 17, 2024'', toLocaleTimeString = ''12:00 AM'',
          formatMonthDay = ''May 17''\<rparr>
      else \<lparr>getFullYear = 2024, getMonth = 4, getDate = 17, getHours = 7, getMinutes = 45,
          getTime = 1715931900000, toISOString = ''2024-05-17T07:45:00.000Z'',
          toLocaleDateString = ''May 17, 2024'', toLocaleTimeString = ''7:45 AM'',
          formatMonthDay = ''May 17''\<rparr>)"

definition sampleNumberToString :: "real \<Rightarrow> string" where
  "sampleNumberToString v =
     (if v = 10 ^ 21 then ''1e+21''
      else
        let n = nat \<lfloor>v * 10\<rfloor>
        in natToString (n div 10)
             @ (if n mod 10 = 0 then [] else CHR ''.'' # natToString (n mod 10)))"




text \<open>A request for the root document, an empty cache storage and a network that is down.\<close>

definition rootRequest :: Request where
  "rootRequest = \<lparr>request_method = ''GET'', url = ''/''\<rparr>"

definition offline :: "Request \<Rightarrow> fetchResult" where
  "offline request = Rejected"

definition shellResponse :: Response where
  "shellResponse = \<lparr>status = 200, response_type = basic, body = ''shell''\<rparr>"





section \<open>Evaluation on the sample platform\<close>

text \<open>The equations that evaluate dates, digits and letters of concrete readings.\<close>

lemmas sample_simps =
  localDay_def toInputDate_def sampleDate_def initialEntries_def Let_def
  padStart_def intToString_def natToString.simps digitChar_def



lemma sample_searchFields:
  "map (searchFields sampleDate sampleNumberToString) initialEntries =
     [[''Fasting'', [], ''5.7'', ''May 17, 2024'', ''7:45 AM''],
      [''Post-Meal'', [], ''7.7'', ''May 16, 2024'', ''12:15 PM''],
      [''Pre-Meal'', [], ''6.6'', ''May 15, 2024'', ''6:05 PM''],
      [''Fasting'', ''Light walk + half portion breakfast'', ''5.3'',
       ''May 15, 2024'', ''7:20 AM'']]"
  by (simp add: searchFields_def sampleNumberToString_def sample_simps)





section \<open>Reading category thresholds\<close>

text \<open>
  Claim C8. A value is \<open>low\<close> exactly when it is strictly below 4.4, \<open>high\<close> exactly when
  it is strictly above 7.8 and \<open>good\<close> otherwise; the boundaries 4.4 and 7.8 are \<open>good\<close>,
  4.3 is \<open>low\<close> and 7.9 is \<open>high\<close>.
\<close>

theorem getReadingCategory_thresholds:
  "(getReadingCategory v = low \<longleftrightarrow> v < 44 / 10)
   \<and> (getReadingCategory v = high \<longleftrightarrow> v > 78 / 10)
   \<and> (getReadingCategory v = good \<longleftrightarrow> 44 / 10 \<le> v \<and> v \<le> 78 / 10)
   \<and> getReadingCategory (44 / 10) = good
   \<and> getReadingCategory (78 / 10) = good
   \<and> getReadingCategory (43 / 10) = low
   \<and> getReadingCategory (79 / 10) = high"
  by (auto simp: getReadingCategory_def lowUpper_def highLower_def)

section \<open>Summary statistics\<close>

subsection \<open>The empty collection\<close>

text \<open>
  Claim C9. For the empty collection the summary is the record with average 0, recent
  average 0 and trend 0; the function is total, so there is no failure.
\<close>

theorem averages_empty:
  "averages [] = \<lparr>average = 0, recent = 0, trend = 0\<rparr>"
  by (simp add: averages_def)

subsection \<open>The three fields as means\<close>







subsection \<open>Rounding and means\<close>













subsection \<open>Collections in descending order of timestamp\<close>




subsection \<open>Sorting by descending timestamp\<close>










subsection \<open>The recent average\<close>




subsection \<open>The summary within the range of the values\<close>




section \<open>History filters\<close>




subsection \<open>Membership in the filtered list\<close>




subsection \<open>The filtered list as a part of the collection\<close>

text \<open>
  Claim C10. The filtered list is a subsequence of the collection: its elements are
  elements of the collection, none occurs more often than in the collection, and the
  order of the collection is kept. Filtering the filtered list again with the same
  filters changes nothing.
\<close>

theorem filteredEntries_subseq:
  "subseq (filteredEntries newDate numberToString f entries) entries
   \<and> set (filteredEntries newDate numberToString f entries) \<subseteq> set entries
   \<and> mset (filteredEntries newDate numberToString f entries) \<subseteq># mset entries
   \<and> filteredEntries newDate numberToString f (filteredEntries newDate numberToString f entries)
       = filteredEntries newDate numberToString f entries"
  by (simp add: filteredEntries_def)

section \<open>Pagination\<close>










section \<open>Chart series\<close>

subsection \<open>The buckets after the loop\<close>













subsection \<open>Sorting and slicing the buckets\<close>







subsection \<open>The days of the chart\<close>








section \<open>CSV export\<close>

subsection \<open>Digits\<close>





subsection \<open>The fields of a row\<close>













subsection \<open>The exported text\<close>




section \<open>The offline cache controller\<close>

text \<open>
  Claim C7. For a GET request the answer of the listener is the cached response when
  there is one, whether the network fetch succeeds or fails; without a cached response it
  is the response of the network when the fetch succeeds, and a network error when the
  fetch fails.
\<close>

theorem fetchListener_get:
  assumes "request_method request = ''GET''"
  shows "fst (fetchListener caches fetch request) =
           (case caches_match caches request of
              Some cached \<Rightarrow> Responded cached
            | None \<Rightarrow>
                (case fetch request of
                   Resolved networkResponse \<Rightarrow> Responded networkResponse
                 | Rejected \<Rightarrow> NetworkError))"
  using assms
  by (simp add: fetchListener_def Let_def split: option.splits fetchResult.splits prod.splits)

text \<open>
  The root document with the network down: a network error from an empty cache storage,
  the cached shell from a storage that holds it.
\<close>

theorem fetchListener_get_witness:
  "request_method rootRequest = ''GET''
   \<and> fst (fetchListener [] offline rootRequest) = NetworkError
   \<and> fst (fetchListener [(CACHE_NAME, [(''/'', shellResponse)])] offline rootRequest)
       = Responded shellResponse"
proof -
  have g: "request_method rootRequest = ''GET''" by (simp add: rootRequest_def)
  show ?thesis
    using g fetchListener_get [OF g, of "[]" offline]
      fetchListener_get [OF g, of "[(CACHE_NAME, [(''/'', shellResponse)])]" offline]
    by (simp add: rootRequest_def offline_def)
qed

end
